theory Spec2Isabelle
  imports Main "HOL-Library.Product_Lexorder" "HOL-Library.Sublist" "HOL-Library.AList"
begin

section \<open>Python strings, slices and paths\<close>

text \<open>
  A Python \<open>str\<close> is a sequence of Unicode code points and \<open>len\<close> counts code points,
  so a string is modelled as a list of code point numbers. The one non-ASCII code point
  the engine itself writes is U+2026 (horizontal ellipsis, 8230).
\<close>

type_synonym codepoint = nat
type_synonym str = "codepoint list"

definition py :: "string \<Rightarrow> str" where
  "py s = map of_char s"

definition DOT :: codepoint where
  "DOT = 46"

definition SLASH :: codepoint where
  "SLASH = 47"

definition NEWLINE :: codepoint where
  "NEWLINE = 10"

definition ELLIPSIS :: str where
  "ELLIPSIS = [8230]"

definition TRUNCATED :: str where
  "TRUNCATED = [NEWLINE] @ ELLIPSIS @ py ''(truncated)''"

definition MAX_CHARS_HARD_LIMIT :: int where
  "MAX_CHARS_HARD_LIMIT = 1500"

text \<open>\<open>xs[:k]\<close>: a negative bound counts from the end of the sequence.\<close>

definition py_slice_to :: "'a list \<Rightarrow> int \<Rightarrow> 'a list" where
  "py_slice_to xs k =
     (if 0 \<le> k then take (nat k) xs else take (nat (int (length xs) + k)) xs)"

text \<open>\<open>xs[a:b]\<close> for bounds that the caller has clamped to be non-negative.\<close>

definition py_slice :: "'a list \<Rightarrow> int \<Rightarrow> int \<Rightarrow> 'a list" where
  "py_slice xs a b = drop (nat a) (take (nat b) xs)"

text \<open>\<open>sep.join(parts)\<close>\<close>

fun join :: "'a list \<Rightarrow> 'a list list \<Rightarrow> 'a list" where
  "join sep [] = []"
| "join sep [x] = x"
| "join sep (x # y # ys) = x @ sep @ join sep (y # ys)"

text \<open>\<open>s.split(c)\<close> for a one-character separator: never returns the empty list.\<close>

fun split_on :: "'a \<Rightarrow> 'a list \<Rightarrow> 'a list list" where
  "split_on c [] = [[]]"
| "split_on c (x # xs) =
     (if x = c then [] # split_on c xs
      else (case split_on c xs of
              [] \<Rightarrow> [[x]]
            | w # ws \<Rightarrow> (x # w) # ws))"

text \<open>\<open>s.rfind(c)\<close>: index of the last occurrence, \<open>-1\<close> if there is none.\<close>

fun rfind_from :: "'a \<Rightarrow> 'a list \<Rightarrow> int \<Rightarrow> int \<Rightarrow> int" where
  "rfind_from c [] i best = best"
| "rfind_from c (x # xs) i best = rfind_from c xs (i + 1) (if x = c then i else best)"

definition rfind :: "'a \<Rightarrow> 'a list \<Rightarrow> int" where
  "rfind c s = rfind_from c s 0 (- 1)"

text \<open>\<open>a in b\<close> on strings: \<open>a\<close> occurs in \<open>b\<close> as a contiguous substring.\<close>

definition str_in :: "str \<Rightarrow> str \<Rightarrow> bool" where
  "str_in a b = sublist a b"

text \<open>
  A \<open>pathlib.Path\<close> is modelled in its resolved form, as the list of its components below
  the filesystem root; \<open>Path.resolve\<close> is the identity on such a path.
\<close>

type_synonym path = "str list"

definition path_name :: "path \<Rightarrow> str" where
  "path_name p = (if p = [] then [] else last p)"

definition name_suffix :: "str \<Rightarrow> str" where
  "name_suffix n =
     (let i = rfind DOT n
      in if 0 < i \<and> i < int (length n) - 1 then drop (nat i) n else [])"

definition name_stem :: "str \<Rightarrow> str" where
  "name_stem n =
     (let i = rfind DOT n
      in if 0 < i \<and> i < int (length n) - 1 then take (nat i) n else n)"

definition path_stem :: "path \<Rightarrow> str" where
  "path_stem p = name_stem (path_name p)"

datatype error = ValueError | OSError | UnicodeDecodeError | SyntaxError | IndexError

text \<open>\<open>p.with_suffix("")\<close>: raises \<open>ValueError\<close> on a path with an empty name.\<close>

definition with_suffix_empty :: "path \<Rightarrow> error + path" where
  "with_suffix_empty p =
     (let n = path_name p
      in if n = [] then Inl ValueError
         else (let old = name_suffix n
               in if old = [] then Inr p
                  else Inr (butlast p @ [take (length n - length old) n])))"

text \<open>\<open>p.relative_to(root)\<close>: raises \<open>ValueError\<close> when \<open>p\<close> is not below \<open>root\<close>.\<close>

definition relative_to :: "path \<Rightarrow> path \<Rightarrow> error + path" where
  "relative_to p root = (if prefix root p then Inr (drop (length root) p) else Inl ValueError)"

definition path_str :: "path \<Rightarrow> str" where
  "path_str p = (if p = [] then [SLASH] else concat (map (\<lambda>c. SLASH # c) p))"

section \<open>parser.py\<close>

record SymbolDefinition =
  parent_qualified_name :: "str option"
  name :: str
  kind :: str
  type_annotation :: "str option"
  file_path :: path
  line :: int
  column :: int
  docstring :: "str option"
  init_docstring :: "str option"
  full_source :: "str option"
  qualified_name :: str

datatype OutlineNode = OutlineNode (symbol: SymbolDefinition) (children: "OutlineNode list")

record SymbolReference =
  ref_symbol :: str
  ref_file_path :: path
  ref_line :: int
  ref_column :: int
  ref_context :: "str option"

text \<open>
  The syntax tree that \<open>ast.parse\<close> returns. Each node carries what the parser reads from
  it: \<open>lineno\<close>, \<open>col_offset\<close>, the results of \<open>ast.get_docstring\<close> and
  \<open>ast.get_source_segment\<close> on it, and its child nodes in the order of
  \<open>ast.iter_child_nodes\<close>. \<open>FunctionDef\<close> stands for both \<open>ast.FunctionDef\<close> and
  \<open>ast.AsyncFunctionDef\<close>, which the parser treats alike everywhere.
\<close>

datatype node =
    Name str int int
  | ClassDef str int int "str option" "str option" "node list" "node list" "node list"
  | FunctionDef str int int "str option" "str option" "node list" "node list" "node list"
  | Assign int int "str option" "node list" "node list"
  | AnnAssign int int "str option" node node "str option" "node list"
  | Other "node list"

text \<open>
  Fields, in order.
  \<^item> \<open>Name id lineno col_offset\<close>
  \<^item> \<open>ClassDef name lineno col_offset docstring segment before body after\<close>: \<open>before\<close> are
    the child nodes ahead of the body (bases, keywords), \<open>after\<close> those behind it
    (decorators).
  \<^item> \<open>FunctionDef name lineno col_offset docstring segment before body after\<close>
  \<^item> \<open>Assign lineno col_offset segment targets rest\<close>
  \<^item> \<open>AnnAssign lineno col_offset segment target annotation unparsed rest\<close>: \<open>unparsed\<close> is
    \<open>ast.unparse(annotation)\<close>, \<open>None\<close> where \<open>ast.unparse\<close> is missing.
  \<^item> \<open>Other children\<close>: every other kind of node.
\<close>

fun iter_child_nodes :: "node \<Rightarrow> node list" where
  "iter_child_nodes (Name i l c) = []"
| "iter_child_nodes (ClassDef n l c d s before body after) = before @ body @ after"
| "iter_child_nodes (FunctionDef n l c d s before body after) = before @ body @ after"
| "iter_child_nodes (Assign l c s targets rest) = targets @ rest"
| "iter_child_nodes (AnnAssign l c s target ann u rest) = target # ann # rest"
| "iter_child_nodes (Other cs) = cs"

record parsed =
  text_of :: str
  module_doc :: "str option"
  module_body :: "node list"

text \<open>
  The environment of the engine: the filesystem and the library functions whose
  definitions lie outside the repository.
  \<^item> \<open>rglob root\<close>: the paths that \<open>root.rglob("*.py")\<close> yields, each resolved and paired with
    the size that \<open>stat\<close> reports for it (\<open>None\<close> when \<open>stat\<close> raises \<open>OSError\<close>);
  \<^item> \<open>path_exists\<close>, \<open>stat_size\<close>: \<open>Path.exists\<close> and \<open>Path.stat().st_size\<close>;
  \<^item> \<open>read_parse\<close>: \<open>read_text\<close> followed by \<open>ast.parse\<close>, either of which can raise;
  \<^item> \<open>lower\<close>, \<open>splitlines\<close>: \<open>str.lower\<close> and \<open>str.splitlines\<close>.
\<close>

record env =
  rglob :: "path \<Rightarrow> (path \<times> int option) list"
  path_exists :: "path \<Rightarrow> bool"
  stat_size :: "path \<Rightarrow> int option"
  read_parse :: "path \<Rightarrow> error + parsed"
  lower :: "str \<Rightarrow> str"
  splitlines :: "str \<Rightarrow> str list"

definition compute_module_qualified_name :: "path \<Rightarrow> path option \<Rightarrow> str" where
  "compute_module_qualified_name fp project_root =
     (case project_root of
        None \<Rightarrow> path_stem fp
      | Some root \<Rightarrow>
          (case relative_to fp root of
             Inl e \<Rightarrow> path_stem fp
           | Inr rel \<Rightarrow>
               (case with_suffix_empty rel of
                  Inl e \<Rightarrow> path_stem fp
                | Inr q \<Rightarrow> join [DOT] q)))"

definition extract_context_window :: "env \<Rightarrow> str \<Rightarrow> int \<Rightarrow> int \<Rightarrow> str" where
  "extract_context_window ev txt ln window =
     (let lines = splitlines ev txt;
          idx = max 0 (ln - 1);
          start = max 0 (idx - window);
          stop = min (int (length lines)) (idx + window + 1)
      in join [NEWLINE] (py_slice lines start stop))"

text \<open>The search for the docstring of \<open>__init__\<close> in the immediate body of a class.\<close>

fun find_init_doc :: "node list \<Rightarrow> str option" where
  "find_init_doc [] = None"
| "find_init_doc (FunctionDef n l c d s before body after # rest) =
     (if n = py ''__init__'' then d else find_init_doc rest)"
| "find_init_doc (x # rest) = find_init_doc rest"

definition or_empty :: "str option \<Rightarrow> str" where
  "or_empty s = (case s of None \<Rightarrow> [] | Some t \<Rightarrow> t)"

type_synonym definitions = "(str \<times> SymbolDefinition) list"

text \<open>
  The loop over the targets of an assignment: one variable per target that is a \<open>Name\<close>.
  The dictionary of definitions is threaded through; \<open>AList.update\<close> is a Python
  \<open>d[k] = v\<close> (a new key goes to the end, an old key keeps its place).
\<close>

fun walk_targets ::
  "path \<Rightarrow> str \<Rightarrow> int \<Rightarrow> int \<Rightarrow> str \<Rightarrow> node list \<Rightarrow> definitions
   \<Rightarrow> OutlineNode list \<times> definitions" where
  "walk_targets fp pq l c src [] defs = ([], defs)"
| "walk_targets fp pq l c src (Name i nl nc # ts) defs =
     (let var_def = \<lparr> parent_qualified_name = Some pq, name = i, kind = py ''variable'',
                      type_annotation = None, file_path = fp, line = l, column = c,
                      docstring = None, init_docstring = None, full_source = Some src,
                      qualified_name = pq @ [DOT] @ i \<rparr>;
          (more, defs') = walk_targets fp pq l c src ts
                            (AList.update (qualified_name var_def) var_def defs)
      in (OutlineNode var_def [] # more, defs'))"
| "walk_targets fp pq l c src (t # ts) defs = walk_targets fp pq l c src ts defs"

fun walk_body :: "path \<Rightarrow> str \<Rightarrow> node list \<Rightarrow> definitions \<Rightarrow> OutlineNode list \<times> definitions"
  where
  "walk_body fp pq [] defs = ([], defs)"
| "walk_body fp pq (ClassDef n l c d s before body after # rest) defs =
     (let cls_def = \<lparr> parent_qualified_name = Some pq, name = n, kind = py ''class'',
                      type_annotation = None, file_path = fp, line = l, column = c,
                      docstring = d, init_docstring = find_init_doc body,
                      full_source = Some (or_empty s), qualified_name = pq @ [DOT] @ n \<rparr>;
          (kids, defs1) = walk_body fp (qualified_name cls_def) body
                            (AList.update (qualified_name cls_def) cls_def defs);
          (more, defs2) = walk_body fp pq rest defs1
      in (OutlineNode cls_def kids # more, defs2))"
| "walk_body fp pq (FunctionDef n l c d s before body after # rest) defs =
     (let fn_def = \<lparr> parent_qualified_name = Some pq, name = n, kind = py ''function'',
                     type_annotation = None, file_path = fp, line = l, column = c,
                     docstring = d, init_docstring = None,
                     full_source = Some (or_empty s), qualified_name = pq @ [DOT] @ n \<rparr>;
          (kids, defs1) = walk_body fp (qualified_name fn_def) body
                            (AList.update (qualified_name fn_def) fn_def defs);
          (more, defs2) = walk_body fp pq rest defs1
      in (OutlineNode fn_def kids # more, defs2))"
| "walk_body fp pq (Assign l c s targets rest_children # rest) defs =
     (let (vars, defs1) = walk_targets fp pq l c (or_empty s) targets defs;
          (more, defs2) = walk_body fp pq rest defs1
      in (vars @ more, defs2))"
| "walk_body fp pq (AnnAssign l c s target ann unparsed rest_children # rest) defs =
     (case target of
        Name i nl nc \<Rightarrow>
          (let var_def = \<lparr> parent_qualified_name = Some pq, name = i, kind = py ''variable'',
                           type_annotation = unparsed, file_path = fp, line = l, column = c,
                           docstring = None, init_docstring = None,
                           full_source = Some (or_empty s), qualified_name = pq @ [DOT] @ i \<rparr>;
               (more, defs1) = walk_body fp pq rest
                                 (AList.update (qualified_name var_def) var_def defs)
           in (OutlineNode var_def [] # more, defs1))
      | _ \<Rightarrow> walk_body fp pq rest defs)"
| "walk_body fp pq (x # rest) defs = walk_body fp pq rest defs"

text \<open>
  \<open>ast.walk\<close>: breadth-first, from a queue of nodes still to visit.
\<close>

function ast_walk :: "node list \<Rightarrow> node list" where
  "ast_walk [] = []"
| "ast_walk (n # todo) = n # ast_walk (todo @ iter_child_nodes n)"
  by pat_completeness auto


fun node_count :: "node \<Rightarrow> nat" where
  "node_count (Name i l c) = 1"
| "node_count (ClassDef n l c d s before body after) =
     1 + sum_list (map node_count before) + sum_list (map node_count body)
       + sum_list (map node_count after)"
| "node_count (FunctionDef n l c d s before body after) =
     1 + sum_list (map node_count before) + sum_list (map node_count body)
       + sum_list (map node_count after)"
| "node_count (Assign l c s targets rest) =
     1 + sum_list (map node_count targets) + sum_list (map node_count rest)"
| "node_count (AnnAssign l c s target ann u rest) =
     1 + node_count target + node_count ann + sum_list (map node_count rest)"
| "node_count (Other cs) = 1 + sum_list (map node_count cs)"

termination ast_walk
proof (relation "measure (\<lambda>todo. sum_list (map node_count todo))")
  show "wf (measure (\<lambda>todo. sum_list (map node_count todo)))" by simp
next
  fix n :: node and todo :: "node list"
  have "sum_list (map node_count (iter_child_nodes n)) < node_count n"
    by (cases n) simp_all
  then show "(todo @ iter_child_nodes n, n # todo)
               \<in> measure (\<lambda>todo. sum_list (map node_count todo))"
    by simp
qed

fun is_Name :: "node \<Rightarrow> bool" where
  "is_Name (Name i l c) = True"
| "is_Name n = False"

fun make_reference :: "env \<Rightarrow> path \<Rightarrow> str \<Rightarrow> node \<Rightarrow> SymbolReference list" where
  "make_reference ev fp txt (Name i l c) =
     [\<lparr> ref_symbol = i, ref_file_path = fp, ref_line = l, ref_column = c,
        ref_context = Some (extract_context_window ev txt l 1) \<rparr>]"
| "make_reference ev fp txt n = []"

text \<open>
  \<open>parse_python_file\<close>. The walk for references starts at the \<open>Module\<close> node, which is no
  \<open>Name\<close> and whose child nodes are the statements of the module body.
\<close>

definition parse_python_file ::
  "env \<Rightarrow> path \<Rightarrow> path option
   \<Rightarrow> error + (OutlineNode \<times> definitions \<times> SymbolReference list)" where
  "parse_python_file ev fp project_root =
     (case read_parse ev fp of
        Inl err \<Rightarrow> Inl err
      | Inr p \<Rightarrow>
          (let module_qualname = compute_module_qualified_name fp project_root;
               module_def = \<lparr> parent_qualified_name = None,
                               name = last (split_on DOT module_qualname),
                               kind = py ''module'', type_annotation = None,
                               file_path = fp, line = 1, column = 0,
                               docstring = module_doc p, init_docstring = None,
                               full_source = Some (text_of p),
                               qualified_name = module_qualname \<rparr>;
               (kids, defs) = walk_body fp module_qualname (module_body p)
                                [(module_qualname, module_def)];
               refs = concat (map (make_reference ev fp (text_of p))
                                  (ast_walk (module_body p)))
           in Inr (OutlineNode module_def kids, defs, refs)))"

section \<open>engine.py\<close>

record engine =
  project_root :: path
  max_eager_files :: int
  max_eager_bytes :: int
  outline_index :: "(path \<times> OutlineNode) list"
  symbol_index :: "(str \<times> SymbolDefinition) list"
  symbols_by_simple_name :: "(str \<times> str list) list"
  references :: "SymbolReference list"
  refs_by_symbol :: "(str \<times> SymbolReference list) list"
  node_index :: "(str \<times> OutlineNode) list"
  all_files :: "path list"
  file_sizes :: "(path \<times> int) list"
  total_bytes :: int
  indexed_files :: "path set"

text \<open>
  A method that mutates the engine returns the engine it leaves behind together with the
  exception it raised, if any: what was written before a raise stays written.
\<close>

text \<open>\<open>d.get(k, default)\<close> and \<open>d.setdefault(k, []).append(v)\<close>\<close>

definition dict_get :: "('k \<times> 'v) list \<Rightarrow> 'k \<Rightarrow> 'v \<Rightarrow> 'v" where
  "dict_get d k dflt = (case map_of d k of None \<Rightarrow> dflt | Some v \<Rightarrow> v)"

definition setdefault_append :: "('k \<times> 'v list) list \<Rightarrow> 'k \<Rightarrow> 'v \<Rightarrow> ('k \<times> 'v list) list" where
  "setdefault_append d k v = AList.update k (dict_get d k [] @ [v]) d"

definition stat_or_zero :: "int option \<Rightarrow> int" where
  "stat_or_zero st = (case st of None \<Rightarrow> 0 | Some s \<Rightarrow> s)"

definition discover_step :: "path \<times> int option \<Rightarrow> engine \<Rightarrow> engine" where
  "discover_step entry e =
     (let p = fst entry; size = stat_or_zero (snd entry)
      in e\<lparr> all_files := all_files e @ [p],
            file_sizes := AList.update p size (file_sizes e),
            total_bytes := total_bytes e + size \<rparr>)"

definition discover_files :: "env \<Rightarrow> engine \<Rightarrow> engine" where
  "discover_files ev e =
     fold discover_step (rglob ev (project_root e))
       (e\<lparr> all_files := [], file_sizes := [], total_bytes := 0 \<rparr>)"

function register_outline_node :: "OutlineNode \<Rightarrow> engine \<Rightarrow> engine" where
  "register_outline_node (OutlineNode d kids) e =
     fold register_outline_node kids
       (e\<lparr> node_index := AList.update (qualified_name d) (OutlineNode d kids) (node_index e) \<rparr>)"
  by pat_completeness auto
termination
  by (relation "measure (\<lambda>(n, e). size n)") (auto simp: less_Suc_eq_le size_list_estimation')

definition register_definition :: "SymbolDefinition \<Rightarrow> engine \<Rightarrow> engine" where
  "register_definition defn e =
     e\<lparr> symbol_index := AList.update (qualified_name defn) defn (symbol_index e),
        symbols_by_simple_name :=
          setdefault_append (symbols_by_simple_name e) (name defn) (qualified_name defn) \<rparr>"

definition register_reference :: "SymbolReference \<Rightarrow> engine \<Rightarrow> engine" where
  "register_reference r e =
     e\<lparr> references := references e @ [r],
        refs_by_symbol := setdefault_append (refs_by_symbol e) (ref_symbol r) r \<rparr>"

definition index_file :: "env \<Rightarrow> path \<Rightarrow> engine \<Rightarrow> error option \<times> engine" where
  "index_file ev fp e =
     (if fp \<in> indexed_files e then (None, e)
      else if \<not> path_exists ev fp then (None, e)
      else (case parse_python_file ev fp (Some (project_root e)) of
              Inl err \<Rightarrow> (Some err, e)
            | Inr (module_node, defs, refs) \<Rightarrow>
                (let e1 = e\<lparr> outline_index := AList.update fp module_node (outline_index e),
                              indexed_files := insert fp (indexed_files e) \<rparr>;
                     e2 = register_outline_node module_node e1;
                     e3 = fold register_definition (map snd defs) e2;
                     e4 = fold register_reference refs e3
                 in (None, e4))))"

text \<open>The loop \<open>for file_path in to_index: self._index_file(file_path)\<close>.\<close>

fun index_files :: "env \<Rightarrow> path list \<Rightarrow> engine \<Rightarrow> error option \<times> engine" where
  "index_files ev [] e = (None, e)"
| "index_files ev (p # ps) e =
     (case index_file ev p e of
        (Some err, e') \<Rightarrow> (Some err, e')
      | (None, e') \<Rightarrow> index_files ev ps e')"

definition initial_index :: "env \<Rightarrow> engine \<Rightarrow> error option \<times> engine" where
  "initial_index ev e =
     (if all_files e = [] then (None, e)
      else (let files_sorted = sort_key (\<lambda>p. dict_get (file_sizes e) p 0) (all_files e);
                to_index =
                  (if int (length (all_files e)) \<le> max_eager_files e
                      \<and> total_bytes e \<le> max_eager_bytes e
                   then files_sorted
                   else py_slice_to files_sorted (max_eager_files e))
            in index_files ev to_index e))"

text \<open>The attributes as \<open>__init__\<close> sets them before it discovers and indexes.\<close>

definition init_fields :: "path \<Rightarrow> int \<Rightarrow> int \<Rightarrow> engine" where
  "init_fields root mef meb =
     \<lparr> project_root = root, max_eager_files = mef, max_eager_bytes = meb,
       outline_index = [], symbol_index = [], symbols_by_simple_name = [],
       references = [], refs_by_symbol = [], node_index = [],
       all_files = [], file_sizes = [], total_bytes = 0, indexed_files = {} \<rparr>"

text \<open>
  The constructor: when \<open>__init__\<close> raises, the caller gets no engine.
\<close>

definition LSPEngine :: "env \<Rightarrow> path \<Rightarrow> int \<Rightarrow> int \<Rightarrow> error + engine" where
  "LSPEngine ev root mef meb =
     (case initial_index ev (discover_files ev (init_fields root mef meb)) of
        (Some err, e) \<Rightarrow> Inl err
      | (None, e) \<Rightarrow> Inr e)"

definition ensure_file_indexed :: "env \<Rightarrow> path \<Rightarrow> engine \<Rightarrow> error option \<times> engine" where
  "ensure_file_indexed ev fp e =
     (if fp \<notin> indexed_files e
      then (let e' = (if fp \<notin> set (all_files e)
                      then e\<lparr> all_files := all_files e @ [fp],
                              file_sizes := AList.update fp (stat_or_zero (stat_size ev fp))
                                              (file_sizes e) \<rparr>
                      else e)
            in index_file ev fp e')
      else (None, e))"

definition resolves :: "str \<Rightarrow> engine \<Rightarrow> bool" where
  "resolves symb e =
     (map_of (symbol_index e) symb \<noteq> None \<or> map_of (symbols_by_simple_name e) symb \<noteq> None)"

definition score :: "env \<Rightarrow> str \<Rightarrow> engine \<Rightarrow> path \<Rightarrow> int \<times> int" where
  "score ev symb e p =
     (let stem = lower ev (path_stem p);
          match = (if str_in (lower ev symb) stem then 0 else 1);
          size = dict_get (file_sizes e) p 0
      in (match, size))"

text \<open>
  The loop \<open>for path in sorted(remaining, key=score)\<close> with its \<open>break\<close>.
\<close>

fun scan_files :: "env \<Rightarrow> str \<Rightarrow> path list \<Rightarrow> engine \<Rightarrow> error option \<times> engine" where
  "scan_files ev symb [] e = (None, e)"
| "scan_files ev symb (p # ps) e =
     (case index_file ev p e of
        (Some err, e') \<Rightarrow> (Some err, e')
      | (None, e') \<Rightarrow> (if resolves symb e' then (None, e') else scan_files ev symb ps e'))"

definition ensure_symbol_indexed :: "env \<Rightarrow> str \<Rightarrow> engine \<Rightarrow> error option \<times> engine" where
  "ensure_symbol_indexed ev symb e =
     (if resolves symb e then (None, e)
      else (let remaining = filter (\<lambda>p. p \<notin> indexed_files e) (all_files e)
            in if remaining = [] then (None, e)
               else scan_files ev symb (sort_key (score ev symb e) remaining) e))"


text \<open>
  \<open>self._symbols_by_simple_name[symbol][0]\<close> raises \<open>IndexError\<close> on an empty list.
\<close>

definition resolve_symbol_qualified_name :: "str \<Rightarrow> engine \<Rightarrow> error + str option" where
  "resolve_symbol_qualified_name symb e =
     (if map_of (symbol_index e) symb \<noteq> None then Inr (Some symb)
      else (case map_of (symbols_by_simple_name e) symb of
              Some qs \<Rightarrow> (case qs of [] \<Rightarrow> Inl IndexError | q # _ \<Rightarrow> Inr (Some q))
            | None \<Rightarrow> Inr None))"

subsection \<open>Public API\<close>

text \<open>The values of the dictionaries that the queries return.\<close>

datatype json = JNone | JStr str | JInt int | JList "json list" | JDict "(str \<times> json) list"

type_synonym pydict = "(str \<times> json) list"

definition opt_str :: "str option \<Rightarrow> json" where
  "opt_str s = (case s of None \<Rightarrow> JNone | Some t \<Rightarrow> JStr t)"

text \<open>
  The statement \<open>if doc and len(doc) > max_chars: doc = doc[:max_chars] + "\<dots>"\<close>, which the
  engine repeats for every docstring and context it shortens; an empty string is falsy.
\<close>

definition truncate_doc :: "str option \<Rightarrow> int \<Rightarrow> str option" where
  "truncate_doc doc max_chars =
     (case doc of
        None \<Rightarrow> None
      | Some d \<Rightarrow>
          (if d \<noteq> [] \<and> int (length d) > max_chars
           then Some (py_slice_to d max_chars @ ELLIPSIS)
           else Some d))"

text \<open>
  \<open>source = defn.full_source or ""\<close>, then
  \<open>if len(source) > max_chars: source = source[:max_chars] + "\n\<dots>(truncated)"\<close>.
\<close>

definition truncate_source :: "str option \<Rightarrow> int \<Rightarrow> str" where
  "truncate_source src max_chars =
     (let source = or_empty src
      in if int (length source) > max_chars
         then py_slice_to source max_chars @ TRUNCATED
         else source)"

text \<open>
  The lookup that opens \<open>get_definition_short\<close> and \<open>get_definition_full\<close>, the same lines
  in both: the symbol if there is one, else the file, else nothing.
\<close>

definition lookup_definition ::
  "env \<Rightarrow> str option \<Rightarrow> path option \<Rightarrow> engine
   \<Rightarrow> (error + SymbolDefinition option) \<times> engine" where
  "lookup_definition ev symb fp e =
     (case symb of
        Some s \<Rightarrow>
          (case ensure_symbol_indexed ev s e of
             (Some err, e') \<Rightarrow> (Inl err, e')
           | (None, e') \<Rightarrow>
               (case resolve_symbol_qualified_name s e' of
                  Inl err \<Rightarrow> (Inl err, e')
                | Inr None \<Rightarrow> (Inr None, e')
                | Inr (Some qualname) \<Rightarrow> (Inr (map_of (symbol_index e') qualname), e')))
      | None \<Rightarrow>
          (case fp of
             Some p \<Rightarrow>
               (case ensure_file_indexed ev p e of
                  (Some err, e') \<Rightarrow> (Inl err, e')
                | (None, e') \<Rightarrow> (Inr (map_option symbol (map_of (outline_index e') p)), e'))
           | None \<Rightarrow> (Inr None, e)))"

definition short_view :: "SymbolDefinition \<Rightarrow> int \<Rightarrow> pydict" where
  "short_view defn max_chars =
     [(py ''name'', JStr (name defn)),
      (py ''kind'', JStr (kind defn)),
      (py ''type'', opt_str (type_annotation defn)),
      (py ''file_path'', JStr (path_str (file_path defn))),
      (py ''docstring'', opt_str (truncate_doc (docstring defn) max_chars)),
      (py ''init_docstring'', opt_str (truncate_doc (init_docstring defn) max_chars))]"

definition get_definition_short ::
  "env \<Rightarrow> str option \<Rightarrow> path option \<Rightarrow> int \<Rightarrow> engine
   \<Rightarrow> (error + pydict option) \<times> engine" where
  "get_definition_short ev symb fp max_chars e =
     (let max_chars = min MAX_CHARS_HARD_LIMIT max_chars
      in (case lookup_definition ev symb fp e of
            (Inl err, e') \<Rightarrow> (Inl err, e')
          | (Inr None, e') \<Rightarrow> (Inr None, e')
          | (Inr (Some defn), e') \<Rightarrow> (Inr (Some (short_view defn max_chars)), e')))"

definition full_view :: "SymbolDefinition \<Rightarrow> int \<Rightarrow> pydict" where
  "full_view defn max_chars =
     [(py ''name'', JStr (name defn)),
      (py ''kind'', JStr (kind defn)),
      (py ''type'', opt_str (type_annotation defn)),
      (py ''file_path'', JStr (path_str (file_path defn))),
      (py ''line'', JInt (line defn)),
      (py ''column'', JInt (column defn)),
      (py ''docstring'', opt_str (docstring defn)),
      (py ''init_docstring'', opt_str (init_docstring defn)),
      (py ''source'', JStr (truncate_source (full_source defn) max_chars))]"

definition get_definition_full ::
  "env \<Rightarrow> str option \<Rightarrow> path option \<Rightarrow> int \<Rightarrow> engine
   \<Rightarrow> (error + pydict option) \<times> engine" where
  "get_definition_full ev symb fp max_chars e =
     (let max_chars = min MAX_CHARS_HARD_LIMIT max_chars
      in (case lookup_definition ev symb fp e of
            (Inl err, e') \<Rightarrow> (Inl err, e')
          | (Inr None, e') \<Rightarrow> (Inr None, e')
          | (Inr (Some defn), e') \<Rightarrow> (Inr (Some (full_view defn max_chars)), e')))"

fun serialize_outline_node :: "OutlineNode \<Rightarrow> int \<Rightarrow> pydict" where
  "serialize_outline_node (OutlineNode defn kids) max_chars =
     (let max_chars = min MAX_CHARS_HARD_LIMIT max_chars
      in [(py ''name'', JStr (name defn)),
          (py ''kind'', JStr (kind defn)),
          (py ''type'', opt_str (type_annotation defn)),
          (py ''file_path'', JStr (path_str (file_path defn))),
          (py ''line'', JInt (line defn)),
          (py ''column'', JInt (column defn)),
          (py ''docstring'', opt_str (truncate_doc (docstring defn) max_chars)),
          (py ''init_docstring'', opt_str (truncate_doc (init_docstring defn) max_chars)),
          (py ''children'',
             JList (map (\<lambda>child. JDict (serialize_outline_node child max_chars)) kids))])"

definition get_outline ::
  "env \<Rightarrow> str option \<Rightarrow> path option \<Rightarrow> int \<Rightarrow> engine
   \<Rightarrow> (error + pydict list) \<times> engine" where
  "get_outline ev symb fp max_chars e =
     (let max_chars = min MAX_CHARS_HARD_LIMIT max_chars
      in (case symb of
            Some s \<Rightarrow>
              (case ensure_symbol_indexed ev s e of
                 (Some err, e') \<Rightarrow> (Inl err, e')
               | (None, e') \<Rightarrow>
                   (case resolve_symbol_qualified_name s e' of
                      Inl err \<Rightarrow> (Inl err, e')
                    | Inr None \<Rightarrow> (Inr [], e')
                    | Inr (Some qualname) \<Rightarrow>
                        (case map_of (node_index e') qualname of
                           None \<Rightarrow> (Inr [], e')
                         | Some nd \<Rightarrow>
                             (Inr (map (\<lambda>child. serialize_outline_node child max_chars)
                                       (children nd)), e'))))
          | None \<Rightarrow>
              (case fp of
                 Some p \<Rightarrow>
                   (case ensure_file_indexed ev p e of
                      (Some err, e') \<Rightarrow> (Inl err, e')
                    | (None, e') \<Rightarrow>
                        (case map_of (outline_index e') p of
                           None \<Rightarrow> (Inr [], e')
                         | Some nd \<Rightarrow>
                             (Inr (map (\<lambda>child. serialize_outline_node child max_chars)
                                       (children nd)), e')))
               | None \<Rightarrow> (Inr [], e))))"

text \<open>
  One entry of the result of \<open>get_references\<close>: the context is shortened and then left
  out of the dictionary.
\<close>

definition reference_entry :: "SymbolReference \<Rightarrow> int \<Rightarrow> pydict" where
  "reference_entry r max_chars =
     (let ctx = truncate_doc (ref_context r) max_chars
      in [(py ''symbol'', JStr (ref_symbol r)),
          (py ''file_path'', JStr (path_str (ref_file_path r))),
          (py ''line'', JInt (ref_line r)),
          (py ''column'', JInt (ref_column r))])"

definition get_references ::
  "env \<Rightarrow> str option \<Rightarrow> path option \<Rightarrow> int \<Rightarrow> engine
   \<Rightarrow> (error + pydict list) \<times> engine" where
  "get_references ev symb fp max_chars e =
     (let max_chars = min MAX_CHARS_HARD_LIMIT max_chars
      in (case symb of
            Some s \<Rightarrow>
              (case ensure_symbol_indexed ev s e of
                 (Some err, e') \<Rightarrow> (Inl err, e')
               | (None, e') \<Rightarrow>
                   (Inr (map (\<lambda>r. reference_entry r max_chars)
                             (dict_get (refs_by_symbol e') s [])), e'))
          | None \<Rightarrow>
              (case fp of
                 Some p \<Rightarrow>
                   (case ensure_file_indexed ev p e of
                      (Some err, e') \<Rightarrow> (Inl err, e')
                    | (None, e') \<Rightarrow>
                        (Inr (map (\<lambda>r. reference_entry r max_chars)
                                  (filter (\<lambda>r. ref_file_path r = p) (references e'))), e'))
               | None \<Rightarrow> (Inr [], e))))"

definition truthy :: "str option \<Rightarrow> bool" where
  "truthy s = (case s of None \<Rightarrow> False | Some t \<Rightarrow> t \<noteq> [])"

definition symbol_entry :: "SymbolDefinition \<Rightarrow> pydict" where
  "symbol_entry defn =
     [(py ''name'', JStr (name defn)),
      (py ''kind'', JStr (kind defn)),
      (py ''type'', opt_str (type_annotation defn)),
      (py ''file_path'', JStr (path_str (file_path defn)))]"

text \<open>The loop of \<open>filter_symbols\<close> over the candidates, with its \<open>continue\<close> and \<open>break\<close>.\<close>

fun filter_loop ::
  "env \<Rightarrow> str option \<Rightarrow> str option \<Rightarrow> str option \<Rightarrow> int
   \<Rightarrow> SymbolDefinition list \<Rightarrow> pydict list \<Rightarrow> pydict list" where
  "filter_loop ev nm knd type_hint max_results [] matches = matches"
| "filter_loop ev nm knd type_hint max_results (defn # rest) matches =
     (if truthy nm \<and> \<not> str_in (lower ev (or_empty nm)) (lower ev (name defn))
      then filter_loop ev nm knd type_hint max_results rest matches
      else if truthy knd \<and> lower ev (kind defn) \<noteq> lower ev (or_empty knd)
      then filter_loop ev nm knd type_hint max_results rest matches
      else if truthy type_hint
              \<and> \<not> str_in (lower ev (or_empty type_hint))
                         (lower ev (or_empty (type_annotation defn)))
      then filter_loop ev nm knd type_hint max_results rest matches
      else (let matches' = matches @ [symbol_entry defn]
            in if int (length matches') \<ge> max_results then matches'
               else filter_loop ev nm knd type_hint max_results rest matches'))"

definition filter_symbols ::
  "env \<Rightarrow> str option \<Rightarrow> str option \<Rightarrow> str option \<Rightarrow> path option \<Rightarrow> int \<Rightarrow> int \<Rightarrow> engine
   \<Rightarrow> (error + pydict list) \<times> engine" where
  "filter_symbols ev nm knd type_hint fp max_results max_chars e =
     (case fp of
        Some p \<Rightarrow>
          (case ensure_file_indexed ev p e of
             (Some err, e') \<Rightarrow> (Inl err, e')
           | (None, e') \<Rightarrow>
               (Inr (filter_loop ev nm knd type_hint max_results
                       (filter (\<lambda>d. file_path d = p) (map snd (symbol_index e'))) []), e'))
      | None \<Rightarrow>
          (Inr (filter_loop ev nm knd type_hint max_results (map snd (symbol_index e)) []), e))"

text \<open>
  The engines that a program can hold: the one the constructor returns, and the one any
  public operation leaves behind, whether it returned or raised.
\<close>

inductive reachable :: "env \<Rightarrow> engine \<Rightarrow> bool" for ev :: env where
  constructed: "LSPEngine ev root mef meb = Inr e \<Longrightarrow> reachable ev e"
| definition_short:
    "reachable ev e \<Longrightarrow> get_definition_short ev symb fp k e = (r, e') \<Longrightarrow> reachable ev e'"
| definition_full:
    "reachable ev e \<Longrightarrow> get_definition_full ev symb fp k e = (r, e') \<Longrightarrow> reachable ev e'"
| outline:
    "reachable ev e \<Longrightarrow> get_outline ev symb fp k e = (r', e') \<Longrightarrow> reachable ev e'"
| refs:
    "reachable ev e \<Longrightarrow> get_references ev symb fp k e = (r', e') \<Longrightarrow> reachable ev e'"
| filtered:
    "reachable ev e \<Longrightarrow> filter_symbols ev nm knd th fp mr k e = (r', e') \<Longrightarrow> reachable ev e'"

section \<open>Definitions for the verification\<close>

text \<open>
  What \<open>_register_outline_node\<close> does to the node index alone, and the qualified names of a
  whole outline tree.
\<close>

fun register_nodes :: "OutlineNode \<Rightarrow> (str \<times> OutlineNode) list \<Rightarrow> (str \<times> OutlineNode) list" where
  "register_nodes (OutlineNode d kids) ni =
     fold register_nodes kids (AList.update (qualified_name d) (OutlineNode d kids) ni)"

fun tree_names :: "OutlineNode \<Rightarrow> str set" where
  "tree_names (OutlineNode d kids) = insert (qualified_name d) (\<Union> (tree_names ` set kids))"

text \<open>
  The symbol table, the collision table and the reference table after a list of
  registrations.
\<close>

definition add_definitions :: "SymbolDefinition list \<Rightarrow> (str \<times> SymbolDefinition) list \<Rightarrow> (str \<times> SymbolDefinition) list" where
  "add_definitions ds si = fold (\<lambda>d. AList.update (qualified_name d) d) ds si"

definition add_simple_names :: "SymbolDefinition list \<Rightarrow> (str \<times> str list) list \<Rightarrow> (str \<times> str list) list" where
  "add_simple_names ds m = fold (\<lambda>d m. setdefault_append m (name d) (qualified_name d)) ds m"

definition add_refs_by_symbol :: "SymbolReference list \<Rightarrow> (str \<times> SymbolReference list) list \<Rightarrow> (str \<times> SymbolReference list) list" where
  "add_refs_by_symbol rs m = fold (\<lambda>r m. setdefault_append m (ref_symbol r) r) rs m"

text \<open>The engine after a file's parse result has been merged into it.\<close>

definition merged :: "path \<Rightarrow> OutlineNode \<Rightarrow> definitions \<Rightarrow> SymbolReference list \<Rightarrow> engine \<Rightarrow> engine" where
  "merged fp mn defs refs e =
     e\<lparr> outline_index := AList.update fp mn (outline_index e),
        symbol_index := add_definitions (map snd defs) (symbol_index e),
        symbols_by_simple_name := add_simple_names (map snd defs) (symbols_by_simple_name e),
        references := references e @ refs,
        refs_by_symbol := add_refs_by_symbol refs (refs_by_symbol e),
        node_index := register_nodes mn (node_index e),
        indexed_files := insert fp (indexed_files e) \<rparr>"

text \<open>
  A predicate on engines is an invariant of indexing when discovery leaves it alone and
  merging the parse of a file that exists and is not yet indexed keeps it.
\<close>

definition index_invariant :: "env \<Rightarrow> (engine \<Rightarrow> bool) \<Rightarrow> bool" where
  "index_invariant ev P \<longleftrightarrow>
     (\<forall>e a. P e \<longrightarrow> P (e\<lparr> all_files := a \<rparr>)) \<and>
     (\<forall>e b. P e \<longrightarrow> P (e\<lparr> file_sizes := b \<rparr>)) \<and>
     (\<forall>e c. P e \<longrightarrow> P (e\<lparr> total_bytes := c \<rparr>)) \<and>
     (\<forall>e fp mn defs refs.
        P e \<longrightarrow> fp \<notin> indexed_files e \<longrightarrow> path_exists ev fp \<longrightarrow>
        parse_python_file ev fp (Some (project_root e)) = Inr (mn, defs, refs) \<longrightarrow>
        P (merged fp mn defs refs e))"

text \<open>The engine that a query leaves behind.\<close>

definition query_state :: "env \<Rightarrow> str option \<Rightarrow> path option \<Rightarrow> engine \<Rightarrow> engine" where
  "query_state ev symb fp e =
     (case symb of
        Some s \<Rightarrow> snd (ensure_symbol_indexed ev s e)
      | None \<Rightarrow> (case fp of Some p \<Rightarrow> snd (ensure_file_indexed ev p e) | None \<Rightarrow> e))"

subsection \<open>Concrete projects\<close>

text \<open>\<open>str.lower\<close> on ASCII letters.\<close>

definition ascii_lower :: "str \<Rightarrow> str" where
  "ascii_lower s = map (\<lambda>c. if 65 \<le> c \<and> c \<le> 90 then c + 32 else c) s"

text \<open>
  A filesystem given as a table: for each path the result of \<open>stat\<close>, whether the path
  exists, and the result of reading and parsing it.
\<close>

type_synonym fs_entry = "path \<times> int option \<times> bool \<times> (error + parsed)"

definition fs_lookup :: "fs_entry list \<Rightarrow> path \<Rightarrow> fs_entry option" where
  "fs_lookup fs p = find (\<lambda>entry. fst entry = p) fs"

definition fs_env :: "fs_entry list \<Rightarrow> env" where
  "fs_env fs =
     \<lparr> rglob = (\<lambda>root. map (\<lambda>entry. (fst entry, fst (snd entry)))
                         (filter (\<lambda>entry. prefix root (fst entry)) fs)),
       path_exists = (\<lambda>p. case fs_lookup fs p of None \<Rightarrow> False | Some entry \<Rightarrow> fst (snd (snd entry))),
       stat_size = (\<lambda>p. case fs_lookup fs p of None \<Rightarrow> None | Some entry \<Rightarrow> fst (snd entry)),
       read_parse = (\<lambda>p. case fs_lookup fs p of None \<Rightarrow> Inl OSError | Some entry \<Rightarrow> snd (snd (snd entry))),
       lower = ascii_lower,
       splitlines = split_on NEWLINE \<rparr>"

text \<open>
  The project of the engine tests' collision case: \<open>pkg_a.py\<close> and \<open>pkg_b.py\<close>, each
  defining a function \<open>util\<close>.
\<close>

definition demo_root :: path where
  "demo_root = [py ''proj'']"

definition pkg_a :: path where
  "pkg_a = [py ''proj'', py ''pkg_a.py'']"

definition pkg_b :: path where
  "pkg_b = [py ''proj'', py ''pkg_b.py'']"

definition util_source :: "string \<Rightarrow> parsed" where
  "util_source doc =
     \<lparr> text_of = py ''def util(): pass'', module_doc = None,
       module_body = [FunctionDef (py ''util'') 1 0 (Some (py doc)) (Some (py ''def util(): pass''))
                        [Other []] [Other []] []] \<rparr>"

definition demo_fs :: "fs_entry list" where
  "demo_fs = [(pkg_a, Some 17, True, Inr (util_source ''util in A'')),
              (pkg_b, Some 18, True, Inr (util_source ''util in B''))]"

definition demo_env :: env where
  "demo_env = fs_env demo_fs"

definition engine_a :: engine where
  "engine_a = snd (index_file demo_env pkg_a (init_fields demo_root 200 5000000))"

text \<open>The engine that the constructor builds for the two-file project.\<close>

definition demo_engine :: engine where
  "demo_engine = snd (initial_index demo_env (discover_files demo_env (init_fields demo_root 200 5000000)))"

text \<open>The two-file project with a third file that does not parse.\<close>

definition bad_py :: path where
  "bad_py = [py ''proj'', py ''bad.py'']"

definition bad_env :: env where
  "bad_env = fs_env ((bad_py, Some 5, True, Inl SyntaxError) # demo_fs)"

text \<open>
  The engine after \<open>_ensure_file_indexed\<close> has noted a path that discovery had not seen.
\<close>

definition noted :: "env \<Rightarrow> path \<Rightarrow> engine \<Rightarrow> engine" where
  "noted ev fp e =
     (if fp \<in> set (all_files e) then e
      else e\<lparr> all_files := all_files e @ [fp],
              file_sizes := AList.update fp (stat_or_zero (stat_size ev fp)) (file_sizes e) \<rparr>)"

text \<open>The project with the file that does not parse, after \<open>pkg_a.py\<close> has been indexed.\<close>

definition bad_engine :: engine where
  "bad_engine = snd (index_file bad_env pkg_a (discover_files bad_env (init_fields demo_root 200 5000000)))"

section \<open>Lemmas on indexing\<close>

lemma fold_node_index:
  assumes "\<And>k e. k \<in> set kids \<Longrightarrow> f k e = e\<lparr> node_index := g k (node_index e) \<rparr>"
  shows "fold f kids e = e\<lparr> node_index := fold g kids (node_index e) \<rparr>"
  using assms by (induction kids arbitrary: e) simp_all

lemma register_outline_node_eq:
  "register_outline_node n e = e\<lparr> node_index := register_nodes n (node_index e) \<rparr>"
proof (induction n arbitrary: e)
  case (OutlineNode d kids)
  have "fold register_outline_node kids e' = e'\<lparr> node_index := fold register_nodes kids (node_index e') \<rparr>" for e'
    by (rule fold_node_index) (simp add: OutlineNode.IH)
  then show ?case by simp
qed

lemma keys_update: "fst ` set (AList.update k v al) = insert k (fst ` set al)"
  by (induction al) auto

lemma keys_fold_register_nodes:
  assumes "\<And>k ni. k \<in> set kids \<Longrightarrow> fst ` set (register_nodes k ni) = fst ` set ni \<union> tree_names k"
  shows "fst ` set (fold register_nodes kids ni) = fst ` set ni \<union> \<Union> (tree_names ` set kids)"
  using assms by (induction kids arbitrary: ni) auto

lemma keys_register_nodes:
  "fst ` set (register_nodes n ni) = fst ` set ni \<union> tree_names n"
proof (induction n arbitrary: ni)
  case (OutlineNode d kids)
  show ?case
    using keys_fold_register_nodes [of kids, OF OutlineNode.IH]
    by (auto simp: keys_update)
qed

lemma fold_register_definition:
  "fold register_definition ds e =
     e\<lparr> symbol_index := add_definitions ds (symbol_index e),
        symbols_by_simple_name := add_simple_names ds (symbols_by_simple_name e) \<rparr>"
  by (induction ds arbitrary: e) (simp_all add: register_definition_def add_definitions_def add_simple_names_def)

lemma fold_register_reference:
  "fold register_reference rs e =
     e\<lparr> references := references e @ rs,
        refs_by_symbol := add_refs_by_symbol rs (refs_by_symbol e) \<rparr>"
  by (induction rs arbitrary: e) (simp_all add: register_reference_def add_refs_by_symbol_def)

lemma index_file_cases:
  "index_file ev fp e =
     (if fp \<in> indexed_files e \<or> \<not> path_exists ev fp then (None, e)
      else (case parse_python_file ev fp (Some (project_root e)) of
              Inl err \<Rightarrow> (Some err, e)
            | Inr (mn, defs, refs) \<Rightarrow> (None, merged fp mn defs refs e)))"
  by (auto simp: index_file_def merged_def register_outline_node_eq fold_register_definition
        fold_register_reference Let_def split: sum.splits prod.splits)

lemma index_file_twice:
  "snd (index_file ev fp (snd (index_file ev fp e))) = snd (index_file ev fp e)"
  by (auto simp: index_file_cases merged_def split: sum.splits prod.splits)

lemma inv_index_file:
  assumes "index_invariant ev P" "P e"
  shows "P (snd (index_file ev fp e))"
  using assms unfolding index_invariant_def index_file_cases
  by (auto split: sum.splits prod.splits)

lemma inv_index_files:
  assumes "index_invariant ev P" "P e"
  shows "P (snd (index_files ev ps e))"
  using assms(2)
proof (induction ps arbitrary: e)
  case Nil
  then show ?case by simp
next
  case (Cons p ps)
  obtain r e' where step: "index_file ev p e = (r, e')" by (cases "index_file ev p e")
  with inv_index_file [OF assms(1) Cons.prems, of p] have "P e'" by simp
  show ?case
  proof (cases r)
    case None
    with step Cons.IH [OF \<open>P e'\<close>] show ?thesis by simp
  next
    case (Some err)
    with step \<open>P e'\<close> show ?thesis by simp
  qed
qed

lemma inv_scan_files:
  assumes "index_invariant ev P" "P e"
  shows "P (snd (scan_files ev symb ps e))"
  using assms(2)
proof (induction ps arbitrary: e)
  case Nil
  then show ?case by simp
next
  case (Cons p ps)
  obtain r e' where step: "index_file ev p e = (r, e')" by (cases "index_file ev p e")
  with inv_index_file [OF assms(1) Cons.prems, of p] have "P e'" by simp
  show ?case
  proof (cases r)
    case None
    with step Cons.IH [OF \<open>P e'\<close>] \<open>P e'\<close> show ?thesis by simp
  next
    case (Some err)
    with step \<open>P e'\<close> show ?thesis by simp
  qed
qed

lemma inv_ensure_symbol_indexed:
  assumes "index_invariant ev P" "P e"
  shows "P (snd (ensure_symbol_indexed ev symb e))"
  using assms inv_scan_files [OF assms]
  by (simp add: ensure_symbol_indexed_def Let_def)

lemma inv_ensure_file_indexed:
  assumes "index_invariant ev P" "P e"
  shows "P (snd (ensure_file_indexed ev fp e))"
proof -
  have frame: "P (e\<lparr> all_files := a, file_sizes := b \<rparr>)" for a b
    using assms unfolding index_invariant_def by blast
  show ?thesis
  proof (cases "fp \<in> indexed_files e")
    case True
    then show ?thesis using assms(2) by (simp add: ensure_file_indexed_def)
  next
    case False
    show ?thesis
    proof (cases "fp \<in> set (all_files e)")
      case True
      with False inv_index_file [OF assms, of fp] show ?thesis
        by (simp add: ensure_file_indexed_def)
    next
      case nin: False
      from False nin inv_index_file [OF assms(1) frame, of fp] show ?thesis
        by (simp add: ensure_file_indexed_def)
    qed
  qed
qed

lemma snd_lookup_definition:
  "snd (lookup_definition ev symb fp e) = query_state ev symb fp e"
  by (simp add: lookup_definition_def query_state_def split: option.split prod.split sum.split)

lemma snd_get_definition_short:
  "snd (get_definition_short ev symb fp k e) = query_state ev symb fp e"
  unfolding snd_lookup_definition [symmetric]
  by (simp add: get_definition_short_def Let_def split: option.split prod.split sum.split)

lemma snd_get_definition_full:
  "snd (get_definition_full ev symb fp k e) = query_state ev symb fp e"
  unfolding snd_lookup_definition [symmetric]
  by (simp add: get_definition_full_def Let_def split: option.split prod.split sum.split)

lemma snd_get_outline:
  "snd (get_outline ev symb fp k e) = query_state ev symb fp e"
  by (simp add: get_outline_def query_state_def Let_def split: option.split prod.split sum.split)

lemma snd_get_references:
  "snd (get_references ev symb fp k e) = query_state ev symb fp e"
  by (simp add: get_references_def query_state_def Let_def split: option.split prod.split sum.split)

lemma snd_filter_symbols:
  "snd (filter_symbols ev nm knd th fp mr k e) = query_state ev None fp e"
  by (simp add: filter_symbols_def query_state_def split: option.split prod.split sum.split)

lemma inv_query_state:
  assumes "index_invariant ev P" "P e"
  shows "P (query_state ev symb fp e)"
  using inv_ensure_symbol_indexed [OF assms] inv_ensure_file_indexed [OF assms] assms(2)
  by (simp add: query_state_def split: option.split)

lemma fold_discover_step:
  "fold discover_step es e =
     e\<lparr> all_files := all_files e @ map fst es,
        file_sizes := fold (\<lambda>entry. AList.update (fst entry) (stat_or_zero (snd entry))) es (file_sizes e),
        total_bytes := total_bytes e + sum_list (map (\<lambda>entry. stat_or_zero (snd entry)) es) \<rparr>"
  by (induction es arbitrary: e) (simp_all add: discover_step_def Let_def)

lemma inv_discover_files:
  assumes "index_invariant ev P" "P e"
  shows "P (discover_files ev e)"
proof -
  have "P (e\<lparr> all_files := a, file_sizes := b, total_bytes := c \<rparr>)" for a b c
    using assms unfolding index_invariant_def by blast
  then show ?thesis
    by (simp add: discover_files_def fold_discover_step)
qed

lemma inv_initial_index:
  assumes "index_invariant ev P" "P e"
  shows "P (snd (initial_index ev e))"
  using assms inv_index_files [OF assms]
  by (simp add: initial_index_def Let_def)

lemma LSPEngine_eq:
  "LSPEngine ev root mef meb =
     (case initial_index ev (discover_files ev (init_fields root mef meb)) of
        (Some err, e) \<Rightarrow> Inl err
      | (None, e) \<Rightarrow> Inr e)"
  by (simp add: LSPEngine_def)

lemma reachable_invariant:
  assumes inv: "index_invariant ev P"
    and init: "\<And>root mef meb. P (init_fields root mef meb)"
    and reach: "reachable ev e"
  shows "P e"
  using reach
proof (induction rule: reachable.induct)
  case (constructed root mef meb e)
  have "P (snd (initial_index ev (discover_files ev (init_fields root mef meb))))"
    by (rule inv_initial_index [OF inv inv_discover_files [OF inv init]])
  with constructed show ?case
    by (auto simp: LSPEngine_eq split: prod.splits option.splits)
next
  case (definition_short e symb fp k r e')
  with inv_query_state [OF inv, of e symb fp] snd_get_definition_short [of ev symb fp k e]
  show ?case by simp
next
  case (definition_full e symb fp k r e')
  with inv_query_state [OF inv, of e symb fp] snd_get_definition_full [of ev symb fp k e]
  show ?case by simp
next
  case (outline e symb fp k r' e')
  with inv_query_state [OF inv, of e symb fp] snd_get_outline [of ev symb fp k e]
  show ?case by simp
next
  case (refs e symb fp k r' e')
  with inv_query_state [OF inv, of e symb fp] snd_get_references [of ev symb fp k e]
  show ?case by simp
next
  case (filtered e nm knd th fp mr k r' e')
  with inv_query_state [OF inv, of e None fp] snd_filter_symbols [of ev nm knd th fp mr k e]
  show ?case by simp
qed

section \<open>The claims\<close>

text \<open>
  Claim C7. Indexing a file a second time leaves every index map as the first indexing
  left it (no duplicate definitions, no duplicate references), and indexing is a no-op
  when the path is already indexed or does not exist on disk.
\<close>

theorem index_file_idempotent:
  "snd (index_file ev fp (snd (index_file ev fp e))) = snd (index_file ev fp e)
   \<and> (fst (index_file ev fp e) = None \<longrightarrow>
        index_file ev fp (snd (index_file ev fp e)) = (None, snd (index_file ev fp e)))
   \<and> (fp \<in> indexed_files e \<longrightarrow> index_file ev' fp e = (None, e))
   \<and> (\<not> path_exists ev fp \<longrightarrow> index_file ev fp e = (None, e))"
  by (auto simp: index_file_cases merged_def split: sum.splits prod.splits)

theorem index_file_idempotent_witness:
  "fst (index_file demo_env pkg_a (init_fields demo_root 200 5000000)) = None
   \<and> pkg_a \<in> indexed_files engine_a
   \<and> map fst (symbol_index engine_a) = [py ''pkg_a'', py ''pkg_a.util'']
   \<and> index_file demo_env pkg_a engine_a = (None, engine_a)
   \<and> \<not> path_exists demo_env [py ''gone.py'']
   \<and> index_file demo_env [py ''gone.py''] engine_a = (None, engine_a)"
proof -
  have a: "fst (index_file demo_env pkg_a (init_fields demo_root 200 5000000)) = None"
    by code_simp
  have b: "pkg_a \<in> indexed_files engine_a" by code_simp
  have c: "map fst (symbol_index engine_a) = [py ''pkg_a'', py ''pkg_a.util'']" by code_simp
  have d: "\<not> path_exists demo_env [py ''gone.py'']" by code_simp
  from a b d
    index_file_idempotent [of demo_env pkg_a "init_fields demo_root 200 5000000" demo_env]
    index_file_idempotent [of demo_env "[py ''gone.py'']" engine_a demo_env]
  show ?thesis unfolding engine_a_def [symmetric] using c by simp
qed

lemma resolve_unresolved:
  "\<not> resolves s e \<Longrightarrow> resolve_symbol_qualified_name s e = Inr None"
  by (simp add: resolves_def resolve_symbol_qualified_name_def)

lemma lookup_definition_symbol:
  "lookup_definition ev (Some s) fp e = lookup_definition ev (Some s) None e"
  by (simp add: lookup_definition_def)

text \<open>
  Claim C8. In \<open>getDefinitionShort\<close> a given symbol takes precedence over the file path:
  the result does not depend on the file path at all, so a symbol that does not resolve
  yields "not found" and never the module of the file. With neither a symbol nor a file
  path the result is the same "not found", returned, not raised.
\<close>

theorem symbol_takes_precedence:
  "get_definition_short ev (Some s) fp k e = get_definition_short ev (Some s) None k e
   \<and> (ensure_symbol_indexed ev s e = (None, e') \<and> \<not> resolves s e' \<longrightarrow>
        get_definition_short ev (Some s) fp k e = (Inr None, e'))
   \<and> get_definition_short ev None None k e = (Inr None, e)"
  by (simp add: get_definition_short_def lookup_definition_def resolve_unresolved)

theorem symbol_takes_precedence_witness:
  "ensure_symbol_indexed demo_env (py ''nothing'') demo_engine = (None, demo_engine)
   \<and> \<not> resolves (py ''nothing'') demo_engine
   \<and> get_definition_short demo_env (Some (py ''nothing'')) (Some pkg_a) 1000 demo_engine
       = (Inr None, demo_engine)
   \<and> fst (get_definition_short demo_env None (Some pkg_a) 1000 demo_engine) \<noteq> Inr None"
proof -
  have a: "ensure_symbol_indexed demo_env (py ''nothing'') demo_engine = (None, demo_engine)"
    by code_simp
  have b: "\<not> resolves (py ''nothing'') demo_engine" by code_simp
  have c: "fst (get_definition_short demo_env None (Some pkg_a) 1000 demo_engine) \<noteq> Inr None"
    by code_simp
  from a b symbol_takes_precedence
    [of demo_env "py ''nothing''" "Some pkg_a" 1000 demo_engine demo_engine]
  have "get_definition_short demo_env (Some (py ''nothing'')) (Some pkg_a) 1000 demo_engine
          = (Inr None, demo_engine)"
    by blast
  with a b c show ?thesis by blast
qed

lemma parse_python_file_Inl:
  "read_parse ev fp = Inl err \<Longrightarrow> parse_python_file ev fp root = Inl err"
  by (simp add: parse_python_file_def)

lemma parse_python_file_Inr:
  "read_parse ev fp = Inr p \<Longrightarrow> \<exists>mn defs refs. parse_python_file ev fp root = Inr (mn, defs, refs)"
  by (simp add: parse_python_file_def Let_def split: prod.split)

lemma index_file_raises:
  assumes "fp \<notin> indexed_files e" "path_exists ev fp" "read_parse ev fp = Inl err"
  shows "index_file ev fp e = (Some err, e)"
  using assms by (simp add: index_file_cases parse_python_file_Inl)

lemma indexed_files_index_file:
  "indexed_files (snd (index_file ev fp e)) \<subseteq> insert fp (indexed_files e)"
  by (auto simp: index_file_cases merged_def split: sum.splits prod.splits)

lemma index_files_raises:
  assumes "p \<in> set ps" "p \<notin> indexed_files e" "path_exists ev p" "read_parse ev p = Inl err"
  shows "\<exists>err'. fst (index_files ev ps e) = Some err'"
  using assms(1,2)
proof (induction ps arbitrary: e)
  case Nil
  then show ?case by simp
next
  case (Cons q qs)
  obtain r e' where step: "index_file ev q e = (r, e')" by (cases "index_file ev q e")
  show ?case
  proof (cases r)
    case (Some err')
    with step show ?thesis by simp
  next
    case None
    have "q \<noteq> p"
    proof
      assume "q = p"
      with index_file_raises [OF Cons.prems(2) assms(3,4)] step None show False by simp
    qed
    with Cons.prems have "p \<in> set qs" by simp
    moreover have "p \<notin> indexed_files e'"
      using indexed_files_index_file [of ev q e] step Cons.prems(2) \<open>q \<noteq> p\<close> by auto
    ultimately have "\<exists>err'. fst (index_files ev qs e') = Some err'" by (rule Cons.IH)
    with step None show ?thesis by simp
  qed
qed

lemma discover_files_fields:
  "all_files (discover_files ev e) = map fst (rglob ev (project_root e))"
  "total_bytes (discover_files ev e)
     = sum_list (map (\<lambda>entry. stat_or_zero (snd entry)) (rglob ev (project_root e)))"
  "indexed_files (discover_files ev e) = indexed_files e"
  "max_eager_files (discover_files ev e) = max_eager_files e"
  "max_eager_bytes (discover_files ev e) = max_eager_bytes e"
  "project_root (discover_files ev e) = project_root e"
  by (simp_all add: discover_files_def fold_discover_step)

lemma ensure_file_indexed_raises:
  assumes "fp \<notin> indexed_files e" "path_exists ev fp" "read_parse ev fp = Inl err"
  shows "ensure_file_indexed ev fp e = (Some err, noted ev fp e)"
proof -
  have "fp \<notin> indexed_files (noted ev fp e)" using assms(1) by (simp add: noted_def)
  from index_file_raises [OF this assms(2,3)]
  have "index_file ev fp (noted ev fp e) = (Some err, noted ev fp e)" .
  moreover have "ensure_file_indexed ev fp e = index_file ev fp (noted ev fp e)"
    using assms(1) by (simp add: ensure_file_indexed_def noted_def)
  ultimately show ?thesis by simp
qed

lemma index_file_keeps_unindexed:
  assumes "path_exists ev fp" "read_parse ev fp = Inl err" "fp \<notin> indexed_files e"
  shows "fp \<notin> indexed_files (snd (index_file ev q e))"
proof (cases "q = fp")
  case True
  with index_file_raises [OF assms(3,1,2)] assms(3) show ?thesis by simp
next
  case False
  with indexed_files_index_file [of ev q e] assms(3) show ?thesis by auto
qed

lemma index_files_keeps_unindexed:
  assumes "path_exists ev fp" "read_parse ev fp = Inl err"
  shows "fp \<notin> indexed_files e \<Longrightarrow> fp \<notin> indexed_files (snd (index_files ev ps e))"
proof (induction ps arbitrary: e)
  case Nil
  then show ?case by simp
next
  case (Cons q qs)
  obtain r e' where step: "index_file ev q e = (r, e')" by (cases "index_file ev q e")
  have keep: "fp \<notin> indexed_files e'"
    using index_file_keeps_unindexed [OF assms Cons.prems, of q] step by simp
  show ?case
  proof (cases r)
    case (Some err')
    with step keep show ?thesis by simp
  next
    case None
    with step Cons.IH [OF keep] show ?thesis by simp
  qed
qed

lemma scan_files_keeps_unindexed:
  assumes "path_exists ev fp" "read_parse ev fp = Inl err"
  shows "fp \<notin> indexed_files e \<Longrightarrow> fp \<notin> indexed_files (snd (scan_files ev s ps e))"
proof (induction ps arbitrary: e)
  case Nil
  then show ?case by simp
next
  case (Cons q qs)
  obtain r e' where step: "index_file ev q e = (r, e')" by (cases "index_file ev q e")
  have keep: "fp \<notin> indexed_files e'"
    using index_file_keeps_unindexed [OF assms Cons.prems, of q] step by simp
  show ?case
  proof (cases r)
    case (Some err')
    with step keep show ?thesis by simp
  next
    case None
    with step keep Cons.IH [OF keep] show ?thesis by simp
  qed
qed

lemma scan_files_stuck:
  assumes "path_exists ev fp" "read_parse ev fp = Inl err"
  shows "fp \<in> set ps \<Longrightarrow> fp \<notin> indexed_files e \<Longrightarrow> scan_files ev s ps e = (None, e')
         \<Longrightarrow> resolves s e'"
proof (induction ps arbitrary: e)
  case Nil
  then show ?case by simp
next
  case (Cons q qs)
  obtain r e1 where step: "index_file ev q e = (r, e1)" by (cases "index_file ev q e")
  show ?case
  proof (cases r)
    case (Some err')
    with step Cons.prems(3) show ?thesis by simp
  next
    case None
    have "q \<noteq> fp"
    proof
      assume "q = fp"
      with index_file_raises [OF Cons.prems(2) assms] step None show False by simp
    qed
    with Cons.prems(1) have mem: "fp \<in> set qs" by simp
    have keep: "fp \<notin> indexed_files e1"
      using index_file_keeps_unindexed [OF assms Cons.prems(2), of q] step by simp
    show ?thesis
    proof (cases "resolves s e1")
      case True
      with step None Cons.prems(3) show ?thesis by simp
    next
      case False
      with step None Cons.prems(3) have "scan_files ev s qs e1 = (None, e')" by simp
      from Cons.IH [OF mem keep this] show ?thesis .
    qed
  qed
qed

lemma ensure_symbol_indexed_keeps_unindexed:
  assumes "path_exists ev fp" "read_parse ev fp = Inl err" "fp \<notin> indexed_files e"
  shows "fp \<notin> indexed_files (snd (ensure_symbol_indexed ev s e))"
  using assms(3) scan_files_keeps_unindexed [OF assms(1,2) assms(3)]
  by (simp add: ensure_symbol_indexed_def Let_def)

lemma ensure_symbol_indexed_stuck:
  assumes "path_exists ev fp" "read_parse ev fp = Inl err" "fp \<notin> indexed_files e"
    and "fp \<in> set (all_files e)" "ensure_symbol_indexed ev s e = (None, e')"
  shows "resolves s e'"
proof (cases "resolves s e")
  case True
  with assms(5) show ?thesis by (simp add: ensure_symbol_indexed_def)
next
  case False
  let ?rem = "filter (\<lambda>p. p \<notin> indexed_files e) (all_files e)"
  have mem: "fp \<in> set ?rem" using assms(3,4) by simp
  then have ne: "?rem \<noteq> []" by (auto simp: filter_empty_conv)
  have "scan_files ev s (sort_key (score ev s e) ?rem) e = (None, e')"
    using assms(5) False ne by (simp add: ensure_symbol_indexed_def Let_def)
  moreover have "fp \<in> set (sort_key (score ev s e) ?rem)" using mem by simp
  ultimately show ?thesis using scan_files_stuck [OF assms(1,2) _ assms(3)] by blast
qed

lemma symbol_query_raises:
  assumes "ensure_symbol_indexed ev s e = (Some err, e')"
  shows "get_definition_short ev (Some s) fp k e = (Inl err, e')"
    and "get_definition_full ev (Some s) fp k e = (Inl err, e')"
    and "get_outline ev (Some s) fp k e = (Inl err, e')"
    and "get_references ev (Some s) fp k e = (Inl err, e')"
  using assms
  by (simp_all add: get_definition_short_def get_definition_full_def get_outline_def
        get_references_def lookup_definition_def)

lemma file_query_raises:
  assumes "ensure_file_indexed ev p e = (Some err, e')"
  shows "get_definition_short ev None (Some p) k e = (Inl err, e')"
    and "get_definition_full ev None (Some p) k e = (Inl err, e')"
    and "get_outline ev None (Some p) k e = (Inl err, e')"
    and "get_references ev None (Some p) k e = (Inl err, e')"
    and "filter_symbols ev nm knd th (Some p) mr k e = (Inl err, e')"
  using assms
  by (simp_all add: get_definition_short_def get_definition_full_def get_outline_def
        get_references_def lookup_definition_def filter_symbols_def)

text \<open>
  Claim C1, amended. The engine has no handler for a parse failure. For every file that
  exists, is not yet indexed and cannot be read or parsed, \<open>indexFile\<close> raises the parser's
  error before it writes to any index map: the engine is as it was, and the file stays
  unindexed through every later indexing run and lazy scan. The error propagates to the
  caller everywhere:
  \<^item> a run over a list of files and a lazy scan stop at the file with its error, the files
    behind it not indexed;
  \<^item> each of the five queries asked about the file by its path raises the error, the
    engine unchanged but for the path being noted as discovered, with its size, when
    discovery had not seen it;
  \<^item> each of the four queries asked about a symbol raises the error, the engine unchanged,
    when the symbol does not resolve and the file is first in the scan order; and when
    the file is anywhere among the discovered files, such a query raises unless the scan
    has made the symbol resolve;
  \<^item> the constructor raises (there is no engine) when the file is discovered in a project
    within both eager thresholds.
\<close>

theorem parse_failure_propagates:
  assumes "fp \<notin> indexed_files e" "path_exists ev fp" "read_parse ev fp = Inl err"
  shows "index_file ev fp e = (Some err, e)
         \<and> fp \<notin> indexed_files (snd (index_files ev ps e))
         \<and> fp \<notin> indexed_files (snd (ensure_symbol_indexed ev s e))
         \<and> index_files ev (fp # rest) e = (Some err, e)
         \<and> scan_files ev s (fp # rest) e = (Some err, e)
         \<and> ensure_file_indexed ev fp e = (Some err, noted ev fp e)
         \<and> get_definition_short ev None (Some fp) k e = (Inl err, noted ev fp e)
         \<and> get_definition_full ev None (Some fp) k e = (Inl err, noted ev fp e)
         \<and> get_outline ev None (Some fp) k e = (Inl err, noted ev fp e)
         \<and> get_references ev None (Some fp) k e = (Inl err, noted ev fp e)
         \<and> filter_symbols ev nm knd th (Some fp) mr k e = (Inl err, noted ev fp e)
         \<and> (\<not> resolves s e
              \<and> sort_key (score ev s e) (filter (\<lambda>p. p \<notin> indexed_files e) (all_files e))
                  = fp # rest
              \<longrightarrow> get_definition_short ev (Some s) fp' k e = (Inl err, e)
                  \<and> get_definition_full ev (Some s) fp' k e = (Inl err, e)
                  \<and> get_outline ev (Some s) fp' k e = (Inl err, e)
                  \<and> get_references ev (Some s) fp' k e = (Inl err, e))
         \<and> (fp \<in> set (all_files e) \<and> \<not> resolves s (snd (ensure_symbol_indexed ev s e))
              \<longrightarrow> (\<exists>err'. fst (get_definition_short ev (Some s) fp' k e) = Inl err'
                           \<and> fst (get_definition_full ev (Some s) fp' k e) = Inl err'
                           \<and> fst (get_outline ev (Some s) fp' k e) = Inl err'
                           \<and> fst (get_references ev (Some s) fp' k e) = Inl err'))
         \<and> ((\<exists>st. (fp, st) \<in> set (rglob ev root))
              \<and> int (length (rglob ev root)) \<le> mef
              \<and> sum_list (map (\<lambda>entry. stat_or_zero (snd entry)) (rglob ev root)) \<le> meb
              \<longrightarrow> (\<exists>err'. LSPEngine ev root mef meb = Inl err'))"
proof -
  have one: "index_file ev fp e = (Some err, e)"
    using assms by (rule index_file_raises)
  have keep1: "fp \<notin> indexed_files (snd (index_files ev ps e))"
    using assms(2,3,1) by (rule index_files_keeps_unindexed)
  have keep2: "fp \<notin> indexed_files (snd (ensure_symbol_indexed ev s e))"
    using assms(2,3,1) by (rule ensure_symbol_indexed_keeps_unindexed)
  have run: "index_files ev (fp # rest) e = (Some err, e)"
    using one by simp
  have scan: "scan_files ev s (fp # rest) e = (Some err, e)"
    using one by simp
  have ens: "ensure_file_indexed ev fp e = (Some err, noted ev fp e)"
    using assms by (rule ensure_file_indexed_raises)
  note byfile = file_query_raises [OF ens]
  have first: "get_definition_short ev (Some s) fp' k e = (Inl err, e)
               \<and> get_definition_full ev (Some s) fp' k e = (Inl err, e)
               \<and> get_outline ev (Some s) fp' k e = (Inl err, e)
               \<and> get_references ev (Some s) fp' k e = (Inl err, e)"
    if unres: "\<not> resolves s e"
      and order: "sort_key (score ev s e) (filter (\<lambda>p. p \<notin> indexed_files e) (all_files e))
                  = fp # rest"
  proof -
    have "filter (\<lambda>p. p \<notin> indexed_files e) (all_files e) \<noteq> []"
    proof
      assume "filter (\<lambda>p. p \<notin> indexed_files e) (all_files e) = []"
      with order show False by simp
    qed
    with unres order scan have "ensure_symbol_indexed ev s e = (Some err, e)"
      by (simp add: ensure_symbol_indexed_def Let_def)
    from symbol_query_raises [OF this] show ?thesis by simp
  qed
  have stuck: "\<exists>err'. fst (get_definition_short ev (Some s) fp' k e) = Inl err'
                 \<and> fst (get_definition_full ev (Some s) fp' k e) = Inl err'
                 \<and> fst (get_outline ev (Some s) fp' k e) = Inl err'
                 \<and> fst (get_references ev (Some s) fp' k e) = Inl err'"
    if mem: "fp \<in> set (all_files e)"
      and unres: "\<not> resolves s (snd (ensure_symbol_indexed ev s e))"
  proof -
    obtain r e' where res: "ensure_symbol_indexed ev s e = (r, e')"
      by (cases "ensure_symbol_indexed ev s e")
    have "r \<noteq> None"
    proof
      assume "r = None"
      with res have "ensure_symbol_indexed ev s e = (None, e')" by simp
      from ensure_symbol_indexed_stuck [OF assms(2,3,1) mem this] unres res
      show False by simp
    qed
    then obtain err' where "r = Some err'" by auto
    with res have "ensure_symbol_indexed ev s e = (Some err', e')" by simp
    from symbol_query_raises [OF this] show ?thesis by simp
  qed
  have ctor: "\<exists>err'. LSPEngine ev root mef meb = Inl err'"
    if st: "(fp, st) \<in> set (rglob ev root)"
      and small: "int (length (rglob ev root)) \<le> mef"
        "sum_list (map (\<lambda>entry. stat_or_zero (snd entry)) (rglob ev root)) \<le> meb"
    for st
  proof -
    let ?e0 = "discover_files ev (init_fields root mef meb)"
    have files: "all_files ?e0 = map fst (rglob ev root)"
      by (simp add: discover_files_fields init_fields_def)
    have mem: "fp \<in> set (all_files ?e0)" using st files by force
    have nin: "fp \<notin> indexed_files ?e0"
      by (simp add: discover_files_fields init_fields_def)
    let ?sorted = "sort_key (\<lambda>p. dict_get (file_sizes ?e0) p 0) (all_files ?e0)"
    have "initial_index ev ?e0 = index_files ev ?sorted ?e0"
      using mem small files
      by (auto simp: initial_index_def Let_def discover_files_fields init_fields_def)
    moreover have "\<exists>err'. fst (index_files ev ?sorted ?e0) = Some err'"
      by (rule index_files_raises [OF _ nin assms(2,3)]) (use mem in simp)
    ultimately obtain err' where "fst (initial_index ev ?e0) = Some err'" by auto
    then show ?thesis
      by (cases "initial_index ev ?e0") (auto simp: LSPEngine_def)
  qed
  show ?thesis
    using one keep1 keep2 run scan ens byfile first stuck ctor by blast
qed

text \<open>
  Claim C1 as stated fails: one file that cannot be parsed makes the constructor raise.
\<close>

theorem parse_failure_counterexample:
  "read_parse bad_env bad_py = Inl SyntaxError
   \<and> LSPEngine bad_env demo_root 200 5000000 = Inl SyntaxError"
  by code_simp

theorem parse_failure_propagates_witness:
  "bad_py \<notin> indexed_files bad_engine
   \<and> path_exists bad_env bad_py
   \<and> read_parse bad_env bad_py = Inl SyntaxError
   \<and> bad_py \<in> set (all_files bad_engine)
   \<and> map fst (symbol_index bad_engine) = [py ''pkg_a'', py ''pkg_a.util'']
   \<and> index_file bad_env bad_py bad_engine = (Some SyntaxError, bad_engine)
   \<and> index_files bad_env [bad_py, pkg_b] bad_engine = (Some SyntaxError, bad_engine)
   \<and> get_references bad_env None (Some bad_py) 300 bad_engine = (Inl SyntaxError, bad_engine)
   \<and> filter_symbols bad_env None None None (Some bad_py) 50 500 bad_engine
       = (Inl SyntaxError, bad_engine)
   \<and> \<not> resolves (py ''bad'') bad_engine
   \<and> get_definition_short bad_env (Some (py ''bad'')) None 1000 bad_engine
       = (Inl SyntaxError, bad_engine)
   \<and> \<not> resolves (py ''nothing'') (snd (ensure_symbol_indexed bad_env (py ''nothing'') bad_engine))
   \<and> (\<exists>err'. fst (get_outline bad_env (Some (py ''nothing'')) None 1000 bad_engine) = Inl err')
   \<and> bad_py \<notin> set (all_files engine_a)
   \<and> fst (get_definition_full bad_env None (Some bad_py) 5000 engine_a) = Inl SyntaxError
   \<and> all_files (snd (get_definition_full bad_env None (Some bad_py) 5000 engine_a)) = [bad_py]
   \<and> (\<exists>err'. LSPEngine bad_env demo_root 200 5000000 = Inl err')"
proof -
  have a: "bad_py \<notin> indexed_files bad_engine" by code_simp
  have b: "path_exists bad_env bad_py" by code_simp
  have c: "read_parse bad_env bad_py = Inl SyntaxError" by code_simp
  have d: "bad_py \<in> set (all_files bad_engine)" by code_simp
  have f: "map fst (symbol_index bad_engine) = [py ''pkg_a'', py ''pkg_a.util'']" by code_simp
  have g: "noted bad_env bad_py bad_engine = bad_engine" using d by (simp add: noted_def)
  have h: "\<not> resolves (py ''bad'') bad_engine" by code_simp
  have i: "sort_key (score bad_env (py ''bad'') bad_engine)
             (filter (\<lambda>p. p \<notin> indexed_files bad_engine) (all_files bad_engine))
           = bad_py # [pkg_b]" by code_simp
  have j: "\<not> resolves (py ''nothing'')
               (snd (ensure_symbol_indexed bad_env (py ''nothing'') bad_engine))" by code_simp
  have a': "bad_py \<notin> indexed_files engine_a" by code_simp
  have d': "bad_py \<notin> set (all_files engine_a)" by code_simp
  have l: "all_files (noted bad_env bad_py engine_a) = [bad_py]" by code_simp
  have m: "(bad_py, Some 5) \<in> set (rglob bad_env demo_root)" by code_simp
  have n: "int (length (rglob bad_env demo_root)) \<le> 200" by code_simp
  have o: "sum_list (map (\<lambda>entry. stat_or_zero (snd entry)) (rglob bad_env demo_root)) \<le> 5000000"
    by code_simp
  note t1 = parse_failure_propagates [OF a b c, where rest = "[pkg_b]" and s = "py ''bad''"
      and k = 300 and nm = None and knd = None and th = None and mr = 50
      and root = demo_root and mef = 200 and meb = 5000000]
  note t1' = parse_failure_propagates [OF a b c, where rest = "[pkg_b]" and s = "py ''bad''"
      and fp' = None and k = 1000]
  note t2 = parse_failure_propagates [OF a b c, where s = "py ''nothing''" and fp' = None
      and k = 1000]
  note t3 = parse_failure_propagates [OF a' b c, where k = 5000]
  have p1: "index_file bad_env bad_py bad_engine = (Some SyntaxError, bad_engine)"
    using t1 by blast
  have p2: "index_files bad_env [bad_py, pkg_b] bad_engine = (Some SyntaxError, bad_engine)"
    using t1 by blast
  have p3: "get_references bad_env None (Some bad_py) 300 bad_engine
              = (Inl SyntaxError, bad_engine)"
    using t1 g by simp
  have p5: "get_definition_short bad_env (Some (py ''bad'')) None 1000 bad_engine
              = (Inl SyntaxError, bad_engine)"
    using t1' h i by blast
  have p6: "\<exists>err'. fst (get_outline bad_env (Some (py ''nothing'')) None 1000 bad_engine) = Inl err'"
    using t2 d j by blast
  have p7: "get_definition_full bad_env None (Some bad_py) 5000 engine_a
              = (Inl SyntaxError, noted bad_env bad_py engine_a)"
    using t3 by blast
  have p8: "\<exists>err'. LSPEngine bad_env demo_root 200 5000000 = Inl err'"
    using t1 m n o by blast
  have p4': "filter_symbols bad_env None None None (Some bad_py) 50 500 bad_engine
              = (Inl SyntaxError, bad_engine)"
    using parse_failure_propagates [OF a b c, where k = 500 and nm = None and knd = None
        and th = None and mr = 50] g by simp
  from a b c d f p1 p2 p3 p4' h p5 j p6 d' p7 l p8 show ?thesis by simp
qed

lemma truncate_doc_bound:
  assumes "0 \<le> m"
  shows "truncate_doc (Some d) m
           = Some (if int (length d) > m then take (nat m) d @ ELLIPSIS else d)"
    and "int (length (the (truncate_doc (Some d) m))) \<le> m + int (length ELLIPSIS)"
  using assms by (auto simp: truncate_doc_def py_slice_to_def)

lemma truncate_source_bound:
  assumes "0 \<le> m"
  shows "truncate_source src m
           = (if int (length (or_empty src)) > m then take (nat m) (or_empty src) @ TRUNCATED
              else or_empty src)"
    and "int (length (truncate_source src m)) \<le> m + int (length TRUNCATED)"
  using assms by (auto simp: truncate_source_def py_slice_to_def Let_def)


end
